theory Spec2Isabelle
  imports Main
begin

section \<open>Exceptions\<close>

text \<open>
  The exceptions the two modules raise, one constructor per raise site. Python only has
  the classes \<open>TypeError\<close> and \<open>ValueError\<close> here; \<open>is_TypeError\<close> gives the class, which is
  what an \<open>except TypeError\<close> clause looks at.
\<close>

datatype error =
    ImmutableContainer    \<comment> \<open>TypeError of \<open>FrozenList._disabled\<close>\<close>
  | ConcatTypeError       \<comment> \<open>TypeError of \<open>list.__add__\<close> on an operand that is not a list\<close>
  | ParseError            \<comment> \<open>TypeError "Could not construct SparseDtype from ..."\<close>
  | UnsupportedFillValue  \<comment> \<open>TypeError "... fill_value in the string is not the default ..."\<close>
  | DtypeNotUnderstood    \<comment> \<open>TypeError of \<open>pandas_dtype\<close> on a string it cannot resolve\<close>
  | CannotParse           \<comment> \<open>ValueError "Cannot parse ..." of \<open>_parse_subtype\<close>\<close>
  | InvalidFillValue      \<comment> \<open>ValueError "fill_value must be a scalar"\<close>
  | IncompatibleFillValue \<comment> \<open>ValueError of \<open>astype_nansafe\<close>\<close>

fun is_TypeError :: "error \<Rightarrow> bool" where
  "is_TypeError ImmutableContainer = True"
| "is_TypeError ConcatTypeError = True"
| "is_TypeError ParseError = True"
| "is_TypeError UnsupportedFillValue = True"
| "is_TypeError DtypeNotUnderstood = True"
| "is_TypeError CannotParse = False"
| "is_TypeError InvalidFillValue = False"
| "is_TypeError IncompatibleFillValue = False"

definition is_ValueError :: "error \<Rightarrow> bool" where
  "is_ValueError e = (\<not> is_TypeError e)"

section \<open>frozen.py: FrozenList\<close>

text \<open>
  A \<open>FrozenList\<close> is a Python list (the class derives from \<open>list\<close>); its state is its
  element sequence. Elements are opaque, hashable values compared by equality. A method
  is a function from the instance to the pair of what the call gives (an exception or a
  value) and the instance's element sequence after the call.

  The argument of \<open>union\<close> and \<open>difference\<close> is any Python iterable. The code tells a
  tuple from the rest, and \<open>list.__add__\<close> tells a list (a \<open>FrozenList\<close> is one) from the
  rest, so the model keeps the three kinds apart.
\<close>

type_synonym 'a FrozenList = "'a list"

datatype 'a py_iterable =
    PyList "'a list"    \<comment> \<open>a list or an instance of a subclass, such as a FrozenList\<close>
  | PyTuple "'a list"   \<comment> \<open>a tuple\<close>
  | PyOther "'a list"   \<comment> \<open>any other iterable (range, str, ndarray, ...), by the elements it yields\<close>


text \<open>\<open>list.__add__\<close>: concatenation with a list, a TypeError on anything else.\<close>

fun list_add :: "'a list \<Rightarrow> 'a py_iterable \<Rightarrow> error + 'a list" where
  "list_add xs (PyList ys) = Inr (xs @ ys)"
| "list_add xs (PyTuple ys) = Inl ConcatTypeError"
| "list_add xs (PyOther ys) = Inl ConcatTypeError"

text \<open>\<open>list.__mul__\<close> by an integer: no repetition for \<open>n \<le> 0\<close>.\<close>

definition list_mul :: "'a list \<Rightarrow> int \<Rightarrow> 'a list" where
  "list_mul xs n = concat (replicate (nat n) xs)"

text \<open>
  \<^verbatim>\<open>
  def union(self, other):
      if isinstance(other, tuple):
          other = list(other)
      return type(self)(super().__add__(other))
  \<close>
\<close>

definition FrozenList_union ::
  "'a FrozenList \<Rightarrow> 'a py_iterable \<Rightarrow> (error + 'a FrozenList) \<times> 'a FrozenList" where
  "FrozenList_union self other =
     (let other' = (case other of PyTuple ys \<Rightarrow> PyList ys | _ \<Rightarrow> other)
      in (list_add self other', self))"


text \<open>\<^verbatim>\<open>__add__ = __iadd__ = union\<close>\<close>

definition FrozenList_add ::
  "'a FrozenList \<Rightarrow> 'a py_iterable \<Rightarrow> (error + 'a FrozenList) \<times> 'a FrozenList" where
  "FrozenList_add = FrozenList_union"

definition FrozenList_iadd ::
  "'a FrozenList \<Rightarrow> 'a py_iterable \<Rightarrow> (error + 'a FrozenList) \<times> 'a FrozenList" where
  "FrozenList_iadd = FrozenList_union"

text \<open>
  \<^verbatim>\<open>
  def __mul__(self, other):
      return self.__class__(super().__mul__(other))

  __imul__ = __mul__
  \<close>
\<close>

definition FrozenList_mul ::
  "'a FrozenList \<Rightarrow> int \<Rightarrow> (error + 'a FrozenList) \<times> 'a FrozenList" where
  "FrozenList_mul self other = (Inr (list_mul self other), self)"

definition FrozenList_imul ::
  "'a FrozenList \<Rightarrow> int \<Rightarrow> (error + 'a FrozenList) \<times> 'a FrozenList" where
  "FrozenList_imul = FrozenList_mul"

text \<open>
  \<^verbatim>\<open>
  def _disabled(self, *args, **kwargs):
      raise TypeError("'{cls}' does not support mutable operations." ...)

  __setitem__ = __setslice__ = __delitem__ = __delslice__ = _disabled
  pop = append = extend = remove = sort = insert = _disabled
  \<close>
  Each disabled method takes the arguments of the list method it replaces and ignores
  them.
\<close>

definition FrozenList_disabled :: "'a FrozenList \<Rightarrow> (error + 'r) \<times> 'a FrozenList" where
  "FrozenList_disabled self = (Inl ImmutableContainer, self)"

definition FrozenList_setitem :: "'a FrozenList \<Rightarrow> int \<Rightarrow> 'a \<Rightarrow> (error + unit) \<times> 'a FrozenList" where
  "FrozenList_setitem self i x = FrozenList_disabled self"

definition FrozenList_delitem :: "'a FrozenList \<Rightarrow> int \<Rightarrow> (error + unit) \<times> 'a FrozenList" where
  "FrozenList_delitem self i = FrozenList_disabled self"

definition FrozenList_pop :: "'a FrozenList \<Rightarrow> int option \<Rightarrow> (error + 'a) \<times> 'a FrozenList" where
  "FrozenList_pop self i = FrozenList_disabled self"

definition FrozenList_append :: "'a FrozenList \<Rightarrow> 'a \<Rightarrow> (error + unit) \<times> 'a FrozenList" where
  "FrozenList_append self x = FrozenList_disabled self"

definition FrozenList_extend ::
  "'a FrozenList \<Rightarrow> 'a py_iterable \<Rightarrow> (error + unit) \<times> 'a FrozenList" where
  "FrozenList_extend self other = FrozenList_disabled self"

definition FrozenList_remove :: "'a FrozenList \<Rightarrow> 'a \<Rightarrow> (error + unit) \<times> 'a FrozenList" where
  "FrozenList_remove self x = FrozenList_disabled self"

definition FrozenList_sort :: "'a FrozenList \<Rightarrow> (error + unit) \<times> 'a FrozenList" where
  "FrozenList_sort self = FrozenList_disabled self"

definition FrozenList_insert :: "'a FrozenList \<Rightarrow> int \<Rightarrow> 'a \<Rightarrow> (error + unit) \<times> 'a FrozenList" where
  "FrozenList_insert self i x = FrozenList_disabled self"

section \<open>dtype.py: what SparseDtype imports\<close>

text \<open>
  \<open>SparseDtype\<close> is written against numpy and the rest of pandas: the registry that
  resolves a name to a type descriptor (\<open>pandas_dtype\<close>), the predicates \<open>is_string_dtype\<close>,
  \<open>is_scalar\<close> and \<open>isna\<close>, the table of default fill values (\<open>na_value_for_dtype\<close>), the
  cast \<open>astype_nansafe\<close>, and Python's own \<open>isinstance\<close>, \<open>type\<close>, \<open>==\<close> and \<open>format\<close> on scalars.
  None of them is part of the two modules, so each is a field of the environment \<open>E\<close> the
  model takes: \<open>'dt\<close> is the type of type descriptors (other than SparseDtype itself),
  \<open>'v\<close> the type of Python values a fill value can be, \<open>None\<close> excluded (an argument that
  may be \<open>None\<close> is a \<open>'v option\<close>).
\<close>

record ('dt, 'v) env =
  pandas_dtype_str :: "string \<Rightarrow> 'dt option"
    \<comment> \<open>\<open>pandas_dtype(s)\<close> for a string: \<open>None\<close> is its TypeError\<close>
  is_string_dtype :: "'dt \<Rightarrow> bool"
  object_dtype :: "'dt"
    \<comment> \<open>\<open>np.dtype("object")\<close>\<close>
  dtype_name :: "'dt \<Rightarrow> string"
    \<comment> \<open>the descriptor's \<open>.name\<close>\<close>
  na_value_for_dtype :: "'dt \<Rightarrow> 'v"
  is_scalar :: "'v \<Rightarrow> bool"
  isna :: "'v \<Rightarrow> bool"
  astype_nansafe :: "'v \<Rightarrow> 'dt \<Rightarrow> error + 'v option"
    \<comment> \<open>\<open>astype_nansafe(np.array(v), dtype).item()\<close>; \<open>item()\<close> can give \<open>None\<close>\<close>
  py_format :: "'v \<Rightarrow> string"
    \<comment> \<open>\<open>"{}".format(v)\<close>\<close>
  isinstance_of_type :: "'v \<Rightarrow> 'v \<Rightarrow> bool"
    \<comment> \<open>\<open>isinstance(x, type(y))\<close>\<close>
  py_eq :: "'v \<Rightarrow> 'v \<Rightarrow> bool"
    \<comment> \<open>the truth value of \<open>x == y\<close>\<close>

section \<open>dtype.py: SparseDtype\<close>

record ('dt, 'v) SparseDtype =
  subtype :: 'dt       \<comment> \<open>\<open>self._dtype\<close>\<close>
  fill_value :: 'v     \<comment> \<open>\<open>self._fill_value\<close>\<close>

text \<open>What a caller can pass where a dtype is expected.\<close>

datatype ('dt, 'v) dtype_arg =
    ArgSparse "('dt, 'v) SparseDtype"
  | ArgDtype 'dt
  | ArgStr string

text \<open>
  \<open>pandas_dtype\<close> gives a descriptor or an extension dtype back as it is and resolves a
  string through the registry. (A string that the registry resolves to an extension dtype
  is an opaque descriptor here.)
\<close>

fun pandas_dtype :: "('dt, 'v) env \<Rightarrow> ('dt, 'v) dtype_arg \<Rightarrow> error + ('dt, 'v) dtype_arg" where
  "pandas_dtype E (ArgSparse d) = Inr (ArgSparse d)"
| "pandas_dtype E (ArgDtype t) = Inr (ArgDtype t)"
| "pandas_dtype E (ArgStr s) =
     (case pandas_dtype_str E s of
        None \<Rightarrow> Inl DtypeNotUnderstood
      | Some t \<Rightarrow> Inr (ArgDtype t))"

text \<open>
  \<^verbatim>\<open>
  def __init__(self, dtype=np.float64, fill_value=None):
      if isinstance(dtype, type(self)):
          if fill_value is None:
              fill_value = dtype.fill_value
          dtype = dtype.subtype
      dtype = pandas_dtype(dtype)
      if is_string_dtype(dtype):
          dtype = np.dtype("object")
      if fill_value is None:
          fill_value = na_value_for_dtype(dtype)
      if not is_scalar(fill_value):
          raise ValueError("fill_value must be a scalar. Got {} instead".format(fill_value))
      self._dtype = dtype
      self._fill_value = fill_value
  \<close>
\<close>

definition SparseDtype_init ::
  "('dt, 'v) env \<Rightarrow> ('dt, 'v) dtype_arg \<Rightarrow> 'v option \<Rightarrow> error + ('dt, 'v) SparseDtype" where
  "SparseDtype_init E dtype fv =
     (let (dtype1, fv1) =
            (case dtype of
               ArgSparse d \<Rightarrow>
                 (ArgDtype (subtype d), (if fv = None then Some (fill_value d) else fv))
             | _ \<Rightarrow> (dtype, fv))
      in case pandas_dtype E dtype1 of
           Inl e \<Rightarrow> Inl e
         | Inr (ArgDtype t) \<Rightarrow>
             (let t1 = (if is_string_dtype E t then object_dtype E else t);
                  fv2 = (case fv1 of None \<Rightarrow> na_value_for_dtype E t1 | Some v \<Rightarrow> v)
              in if \<not> is_scalar E fv2 then Inl InvalidFillValue
                 else Inr \<lparr>subtype = t1, fill_value = fv2\<rparr>)
         | Inr _ \<Rightarrow> Inl DtypeNotUnderstood)"

text \<open>
  (The last branch is never taken: after the first step \<open>dtype1\<close> is a descriptor or a
  string, and \<open>pandas_dtype\<close> gives a descriptor for both.)

  \<^verbatim>\<open>
  @property
  def _is_na_fill_value(self):
      return isna(self.fill_value)
  \<close>
\<close>

definition is_na_fill_value :: "('dt, 'v) env \<Rightarrow> ('dt, 'v) SparseDtype \<Rightarrow> bool" where
  "is_na_fill_value E self = isna E (fill_value self)"

text \<open>
  \<^verbatim>\<open>
  @property
  def name(self):
      return "Sparse[{}, {}]".format(self.subtype.name, self.fill_value)
  \<close>
\<close>

definition name :: "('dt, 'v) env \<Rightarrow> ('dt, 'v) SparseDtype \<Rightarrow> string" where
  "name E self =
     ''Sparse['' @ dtype_name E (subtype self) @ '', '' @ py_format E (fill_value self) @ '']''"

subsection \<open>The regular expression of \<open>_parse_subtype\<close>\<close>

text \<open>
  \<^verbatim>\<open>xpr = re.compile(r"Sparse\[(?P<subtype>[^,]*)(, )?(?P<fill_value>.*?)?\]$")\<close>
  \<^verbatim>\<open>m = xpr.match(dtype)\<close>

  \<open>match\<close> anchors at the start and backtracks in the order of the pattern: the group
  \<open>subtype\<close> is greedy (the longest run of characters other than a comma first, then
  shorter ones), the separator \<open>", "\<close> is taken when it is there and skipped otherwise,
  the group \<open>fill_value\<close> is lazy (the shortest text first) and its \<open>.\<close> matches no
  newline, and \<open>\]$\<close> matches a closing bracket at the end of the string or just before
  a final newline.
\<close>

fun lazy_fill :: "string \<Rightarrow> string option" where
  "lazy_fill [] = None"
| "lazy_fill (c # cs) =
     (if c # cs = '']'' \<or> c # cs = [CHR '']'', CHR 0x0A] then Some []
      else if c = CHR 0x0A then None
      else map_option ((#) c) (lazy_fill cs))"

definition after_subtype :: "string \<Rightarrow> string option" where
  "after_subtype r =
     (case (if take 2 r = '', '' then lazy_fill (drop 2 r) else None) of
        Some f \<Rightarrow> Some f
      | None \<Rightarrow> lazy_fill r)"

fun try_subtype :: "nat \<Rightarrow> string \<Rightarrow> (string \<times> string) option" where
  "try_subtype 0 r = map_option (Pair []) (after_subtype r)"
| "try_subtype (Suc k) r =
     (case after_subtype (drop (Suc k) r) of
        Some f \<Rightarrow> Some (take (Suc k) r, f)
      | None \<Rightarrow> try_subtype k r)"

definition xpr_match :: "string \<Rightarrow> (string \<times> string) option" where
  "xpr_match s =
     (if take 7 s = ''Sparse[''
      then (let r = drop 7 s in try_subtype (length (takeWhile (\<lambda>c. c \<noteq> CHR '','') r)) r)
      else None)"

text \<open>
  \<^verbatim>\<open>
  def _parse_subtype(dtype):
      xpr = re.compile(...)
      m = xpr.match(dtype)
      has_fill_value = False
      if m:
          subtype = m.groupdict()["subtype"]
          has_fill_value = m.groupdict()["fill_value"] or has_fill_value
      elif dtype == "Sparse":
          subtype = "float64"
      else:
          raise ValueError("Cannot parse {}".format(dtype))
      return subtype, has_fill_value
  \<close>
  \<open>has_fill_value\<close> is the text of the group when it is not empty and \<open>False\<close>
  otherwise: \<open>Some\<close> of the text, or \<open>None\<close>.
\<close>

definition parse_subtype :: "string \<Rightarrow> error + (string \<times> string option)" where
  "parse_subtype dtype =
     (case xpr_match dtype of
        Some (sub, fill) \<Rightarrow> Inr (sub, (if fill = [] then None else Some fill))
      | None \<Rightarrow>
          if dtype = ''Sparse'' then Inr (''float64'', None)
          else Inl CannotParse)"

text \<open>
  \<^verbatim>\<open>
  def construct_from_string(cls, string):
      msg = "Could not construct SparseDtype from '{}'".format(string)
      if string.startswith("Sparse"):
          try:
              sub_type, has_fill_value = cls._parse_subtype(string)
          except ValueError:
              raise TypeError(msg)
          else:
              result = SparseDtype(sub_type)
              msg = (...)
              if has_fill_value and str(result) != string:
                  raise TypeError(msg.format(string))
              return result
      else:
          raise TypeError(msg)
  \<close>
  \<open>str(result)\<close> is \<open>result.name\<close>.
\<close>

definition construct_from_string ::
  "('dt, 'v) env \<Rightarrow> string \<Rightarrow> error + ('dt, 'v) SparseDtype" where
  "construct_from_string E string =
     (if take 6 string = ''Sparse'' then
        (case parse_subtype string of
           Inl e \<Rightarrow> (if is_ValueError e then Inl ParseError else Inl e)
         | Inr (sub_type, has_fill_value) \<Rightarrow>
             (case SparseDtype_init E (ArgStr sub_type) None of
                Inl e \<Rightarrow> Inl e
              | Inr result \<Rightarrow>
                  if has_fill_value \<noteq> None \<and> name E result \<noteq> string
                  then Inl UnsupportedFillValue
                  else Inr result))
      else Inl ParseError)"

text \<open>
  \<^verbatim>\<open>
  def __eq__(self, other):
      if isinstance(other, str):
          try:
              other = self.construct_from_string(other)
          except TypeError:
              return False
      if isinstance(other, type(self)):
          subtype = self.subtype == other.subtype
          if self._is_na_fill_value:
              fill_value = (
                  other._is_na_fill_value
                  and isinstance(self.fill_value, type(other.fill_value))
                  or isinstance(other.fill_value, type(self.fill_value))
              )
          else:
              fill_value = self.fill_value == other.fill_value
          return subtype and fill_value
      return False
  \<close>
  In Python \<open>a and b or c\<close> is \<open>(a and b) or c\<close>. \<open>eq_instances\<close> is the branch for
  another SparseDtype.
\<close>

definition eq_instances ::
  "('dt, 'v) env \<Rightarrow> ('dt, 'v) SparseDtype \<Rightarrow> ('dt, 'v) SparseDtype \<Rightarrow> bool" where
  "eq_instances E self other =
     (let sub = (subtype self = subtype other);
          fill =
            (if is_na_fill_value E self then
               (is_na_fill_value E other
                  \<and> isinstance_of_type E (fill_value self) (fill_value other))
               \<or> isinstance_of_type E (fill_value other) (fill_value self)
             else py_eq E (fill_value self) (fill_value other))
      in sub \<and> fill)"

datatype ('dt, 'v) py_object =
    ObjStr string
  | ObjSparse "('dt, 'v) SparseDtype"
  | ObjOther     \<comment> \<open>an object that is neither a string nor a SparseDtype\<close>

definition SparseDtype_eq ::
  "('dt, 'v) env \<Rightarrow> ('dt, 'v) SparseDtype \<Rightarrow> ('dt, 'v) py_object \<Rightarrow> error + bool" where
  "SparseDtype_eq E self other =
     (case other of
        ObjStr s \<Rightarrow>
          (case construct_from_string E s of
             Inl e \<Rightarrow> (if is_TypeError e then Inr False else Inl e)
           | Inr d \<Rightarrow> Inr (eq_instances E self d))
      | ObjSparse d \<Rightarrow> Inr (eq_instances E self d)
      | ObjOther \<Rightarrow> Inr False)"

text \<open>
  \<^verbatim>\<open>
  _metadata = ("_dtype", "_fill_value", "_is_na_fill_value")

  def __hash__(self):
      return super().__hash__()
  \<close>
  \<open>metadata\<close> is the tuple of the attributes that \<open>_metadata\<close> lists.
\<close>

definition metadata :: "('dt, 'v) env \<Rightarrow> ('dt, 'v) SparseDtype \<Rightarrow> 'dt \<times> 'v \<times> bool" where
  "metadata E self = (subtype self, fill_value self, is_na_fill_value E self)"

text \<open>
  Modelled from the spec: \<open>ExtensionDtype.__hash__\<close>, the method of the base class that
  \<open>super().__hash__()\<close> calls, is not among the sources. By the spec it feeds the tuple of
  (subtype, fill_value, is_na_fill_value) to a structural hash; the hash function \<open>H\<close> of
  tuples is a parameter.
\<close>

definition SparseDtype_hash ::
  "('dt \<times> 'v \<times> bool \<Rightarrow> 'h) \<Rightarrow> ('dt, 'v) env \<Rightarrow> ('dt, 'v) SparseDtype \<Rightarrow> 'h" where
  "SparseDtype_hash H E self = H (metadata E self)"

text \<open>
  \<^verbatim>\<open>
  def update_dtype(self, dtype):
      cls = type(self)
      dtype = pandas_dtype(dtype)
      if not isinstance(dtype, cls):
          fill_value = astype_nansafe(np.array(self.fill_value), dtype).item()
          dtype = cls(dtype, fill_value=fill_value)
      return dtype
  \<close>
\<close>

definition update_dtype ::
  "('dt, 'v) env \<Rightarrow> ('dt, 'v) SparseDtype \<Rightarrow> ('dt, 'v) dtype_arg \<Rightarrow> error + ('dt, 'v) SparseDtype" where
  "update_dtype E self dtype =
     (case pandas_dtype E dtype of
        Inl e \<Rightarrow> Inl e
      | Inr (ArgSparse d) \<Rightarrow> Inr d
      | Inr (ArgDtype t) \<Rightarrow>
          (case astype_nansafe E (fill_value self) t of
             Inl e \<Rightarrow> Inl e
           | Inr fv \<Rightarrow> SparseDtype_init E (ArgDtype t) fv)
      | Inr (ArgStr s) \<Rightarrow> Inl DtypeNotUnderstood)"

text \<open>(The last branch is never taken: \<open>pandas_dtype\<close> gives no string.)\<close>

section \<open>An environment for the examples\<close>

text \<open>
  Modelled from the spec: the registry, the default fill values, the missing-value test
  and the cast are not among the sources. The environment below gives them on a small
  universe, for the concrete examples: the types and defaults of the table in the spec
  and in the docstring of the class (float: NaN, int: 0, bool: False, datetime64 and
  timedelta64: NaT), the object type and the string type, and the scalar values of
  Python the examples use.
\<close>

datatype np_dtype =
  dt_int64 | dt_float64 | dt_bool | dt_object | dt_datetime64 | dt_timedelta64 | dt_str

datatype scalar =
    PyBool bool
  | PyInt int
  | PyFloat int    \<comment> \<open>the float whose value is this integer: \<open>PyFloat 0\<close> is \<open>0.0\<close>\<close>
  | NaN            \<comment> \<open>the float NaN (\<open>np.nan\<close>, \<open>float('nan')\<close>)\<close>
  | NaT
  | PyStr string

datatype py_type = T_bool | T_int | T_float | T_NaTType | T_str

fun type_of :: "scalar \<Rightarrow> py_type" where
  "type_of (PyBool b) = T_bool"
| "type_of (PyInt i) = T_int"
| "type_of (PyFloat i) = T_float"
| "type_of NaN = T_float"
| "type_of NaT = T_NaTType"
| "type_of (PyStr s) = T_str"

text \<open>\<open>isinstance(x, type(y))\<close>: the same type, or \<open>bool\<close>, which is a subclass of \<open>int\<close>.\<close>

definition ex_isinstance :: "scalar \<Rightarrow> scalar \<Rightarrow> bool" where
  "ex_isinstance x y =
     (type_of x = type_of y \<or> (type_of x = T_bool \<and> type_of y = T_int))"

fun ex_isna :: "scalar \<Rightarrow> bool" where
  "ex_isna NaN = True"
| "ex_isna NaT = True"
| "ex_isna _ = False"

text \<open>
  \<open>==\<close>: numbers (bool, int, float) compare by value across the three types, strings with
  strings; NaN and NaT equal nothing, themselves included.
\<close>

fun number :: "scalar \<Rightarrow> int option" where
  "number (PyBool b) = Some (if b then 1 else 0)"
| "number (PyInt i) = Some i"
| "number (PyFloat i) = Some i"
| "number _ = None"

fun ex_eq :: "scalar \<Rightarrow> scalar \<Rightarrow> bool" where
  "ex_eq (PyStr s) (PyStr t) = (s = t)"
| "ex_eq x y =
     (case (number x, number y) of
        (Some a, Some b) \<Rightarrow> a = b
      | _ \<Rightarrow> False)"

text \<open>\<open>str\<close> of an integer, in decimal.\<close>

fun str_nat :: "nat \<Rightarrow> string" where
  "str_nat n =
     (if n < 10 then [''0123456789'' ! n]
      else str_nat (n div 10) @ [''0123456789'' ! (n mod 10)])"

declare str_nat.simps [simp del]

definition str_int :: "int \<Rightarrow> string" where
  "str_int i = (if i < 0 then ''-'' @ str_nat (nat (- i)) else str_nat (nat i))"

fun ex_format :: "scalar \<Rightarrow> string" where
  "ex_format (PyBool b) = (if b then ''True'' else ''False'')"
| "ex_format (PyInt i) = str_int i"
| "ex_format (PyFloat i) = str_int i @ ''.0''"
| "ex_format NaN = ''nan''"
| "ex_format NaT = ''NaT''"
| "ex_format (PyStr s) = s"

fun ex_name :: "np_dtype \<Rightarrow> string" where
  "ex_name dt_int64 = ''int64''"
| "ex_name dt_float64 = ''float64''"
| "ex_name dt_bool = ''bool''"
| "ex_name dt_object = ''object''"
| "ex_name dt_datetime64 = ''datetime64[ns]''"
| "ex_name dt_timedelta64 = ''timedelta64[ns]''"
| "ex_name dt_str = ''str''"

text \<open>
  The names the registry resolves here: the canonical names, and the aliases \<open>int\<close> and
  \<open>float\<close> of the docstring of \<open>construct_from_string\<close>.
\<close>

definition ex_pandas_dtype_str :: "string \<Rightarrow> np_dtype option" where
  "ex_pandas_dtype_str s =
     (if s = ''int64'' \<or> s = ''int'' then Some dt_int64
      else if s = ''float64'' \<or> s = ''float'' then Some dt_float64
      else if s = ''bool'' then Some dt_bool
      else if s = ''object'' then Some dt_object
      else if s = ''datetime64[ns]'' then Some dt_datetime64
      else if s = ''timedelta64[ns]'' then Some dt_timedelta64
      else if s = ''str'' then Some dt_str
      else None)"

fun ex_is_string_dtype :: "np_dtype \<Rightarrow> bool" where
  "ex_is_string_dtype dt_str = True"
| "ex_is_string_dtype dt_object = True"
| "ex_is_string_dtype _ = False"

fun ex_na_value_for_dtype :: "np_dtype \<Rightarrow> scalar" where
  "ex_na_value_for_dtype dt_int64 = PyInt 0"
| "ex_na_value_for_dtype dt_bool = PyBool False"
| "ex_na_value_for_dtype dt_datetime64 = NaT"
| "ex_na_value_for_dtype dt_timedelta64 = NaT"
| "ex_na_value_for_dtype dt_float64 = NaN"
| "ex_na_value_for_dtype _ = NaN"

text \<open>
  The casts of the examples: a number to float64 and to int64 (NaN to an integer type is
  the ValueError the docstring of \<open>update_dtype\<close> names), anything to object, and anything
  to the string type, which gives its text. The other casts (to bool and to the datetime
  types, of NaT or of a string to a number) are not modelled: they are given as failing,
  and no example rests on them.
\<close>

fun ex_astype_nansafe :: "scalar \<Rightarrow> np_dtype \<Rightarrow> error + scalar option" where
  "ex_astype_nansafe v dt_object = Inr (Some v)"
| "ex_astype_nansafe v dt_str = Inr (Some (PyStr (ex_format v)))"
| "ex_astype_nansafe NaN dt_float64 = Inr (Some NaN)"
| "ex_astype_nansafe v dt_float64 =
     (case number v of Some i \<Rightarrow> Inr (Some (PyFloat i)) | None \<Rightarrow> Inl IncompatibleFillValue)"
| "ex_astype_nansafe v dt_int64 =
     (case number v of Some i \<Rightarrow> Inr (Some (PyInt i)) | None \<Rightarrow> Inl IncompatibleFillValue)"
| "ex_astype_nansafe v _ = Inl IncompatibleFillValue"

definition example_env :: "(np_dtype, scalar) env" where
  "example_env =
     \<lparr>pandas_dtype_str = ex_pandas_dtype_str,
      is_string_dtype = ex_is_string_dtype,
      object_dtype = dt_object,
      dtype_name = ex_name,
      na_value_for_dtype = ex_na_value_for_dtype,
      is_scalar = (\<lambda>v. True),
      isna = ex_isna,
      astype_nansafe = ex_astype_nansafe,
      py_format = ex_format,
      isinstance_of_type = ex_isinstance,
      py_eq = ex_eq\<rparr>"

section \<open>Properties of FrozenList\<close>

text \<open>
  C5, as the claim states it, fails: in-place repetition \<open>x *= n\<close> is \<open>__imul__\<close>, which
  the class sets to \<open>__mul__\<close>; it raises nothing and gives a new list.
\<close>

theorem C5_imul_counterexample:
  "\<not> (fst (FrozenList_imul [1::int, 2] 2) = Inl ImmutableContainer)
   \<and> FrozenList_imul [1::int, 2] 2 = (Inr [1, 2, 1, 2], [1, 2])"
  by (simp add: FrozenList_imul_def FrozenList_mul_def list_mul_def eval_nat_numeral)

text \<open>
  C5, amended: append, insert, remove, sort, pop, element assignment and element deletion
  each fail with ImmutableContainer and leave the element sequence as it was; repetition,
  in place (\<open>x *= n\<close>) or not (\<open>x * n\<close>), fails never, leaves the instance as it was and
  gives a new list holding the elements repeated \<open>n\<close> times in order (none for
  \<open>n \<le> 0\<close>).
\<close>

theorem C5_mutators_disabled:
  "FrozenList_append self x = (Inl ImmutableContainer, self)
   \<and> FrozenList_insert self i x = (Inl ImmutableContainer, self)
   \<and> FrozenList_remove self x = (Inl ImmutableContainer, self)
   \<and> FrozenList_sort self = (Inl ImmutableContainer, self)
   \<and> FrozenList_pop self j = (Inl ImmutableContainer, self)
   \<and> FrozenList_setitem self i x = (Inl ImmutableContainer, self)
   \<and> FrozenList_delitem self i = (Inl ImmutableContainer, self)
   \<and> FrozenList_mul self n = (Inr (concat (replicate (nat n) self)), self)
   \<and> FrozenList_imul self n = (Inr (concat (replicate (nat n) self)), self)"
  by (simp add: FrozenList_append_def FrozenList_insert_def FrozenList_remove_def
      FrozenList_sort_def FrozenList_pop_def FrozenList_setitem_def FrozenList_delitem_def
      FrozenList_disabled_def FrozenList_mul_def FrozenList_imul_def list_mul_def)




text \<open>
  C10: \<open>x += other\<close> is \<open>__iadd__\<close>, which the class sets to \<open>union\<close>: it never fails with
  ImmutableContainer, the instance is as it was, and for a list or a tuple the value the
  variable is bound to afterwards is the new FrozenList that \<open>x.union(other)\<close> gives.
\<close>

theorem C10_iadd_is_union:
  "FrozenList_iadd x other = FrozenList_union x other
   \<and> fst (FrozenList_iadd x other) \<noteq> Inl ImmutableContainer
   \<and> snd (FrozenList_iadd x other) = x
   \<and> FrozenList_iadd x (PyList ys) = (Inr (x @ ys), x)
   \<and> FrozenList_iadd x (PyTuple ys) = (Inr (x @ ys), x)"
  by (cases other) (simp_all add: FrozenList_iadd_def FrozenList_union_def)

section \<open>Properties of SparseDtype\<close>

lemmas example_simps =
  example_env_def ex_pandas_dtype_str_def ex_isinstance_def str_int_def str_nat.simps

subsection \<open>The regular expression on a name\<close>







subsection \<open>The constructor and \<open>construct_from_string\<close>\<close>






subsection \<open>Equality and hashing\<close>

text \<open>
  C1: two instances are to be equal if and only if their subtypes are equal and either
  both fill values are missing-value sentinels of compatible types or the fill values
  compare equal. The code does not do this. The condition of the NA branch,
  \<open>other._is_na_fill_value and isinstance(..) or isinstance(..)\<close>, is read by Python as
  \<open>(.. and ..) or ..\<close>, so an instance whose fill value is NaN equals every instance of
  the same subtype whose fill value is a float, missing or not:
  \<open>SparseDtype(float64, nan) == SparseDtype(float64, 0.0)\<close> is \<open>True\<close>, although \<open>0.0\<close> is
  no missing value and \<open>nan == 0.0\<close> is \<open>False\<close>; the other way round the comparison gives
  \<open>False\<close>.
\<close>

theorem C1_eq_nan_zero:
  "SparseDtype_eq example_env \<lparr>subtype = dt_float64, fill_value = NaN\<rparr>
       (ObjSparse \<lparr>subtype = dt_float64, fill_value = PyFloat 0\<rparr>) = Inr True
   \<and> SparseDtype_eq example_env \<lparr>subtype = dt_float64, fill_value = PyFloat 0\<rparr>
       (ObjSparse \<lparr>subtype = dt_float64, fill_value = NaN\<rparr>) = Inr False
   \<and> isna example_env (PyFloat 0) = False
   \<and> py_eq example_env NaN (PyFloat 0) = False"
  by (simp add: SparseDtype_eq_def eq_instances_def is_na_fill_value_def example_simps)

text \<open>
  The two examples of the claim hold: a NaN fill equals a NaN fill, and it equals no NaT
  fill, of a datetime subtype or of the same subtype.
\<close>

lemma eq_examples:
  "SparseDtype_eq example_env \<lparr>subtype = dt_float64, fill_value = NaN\<rparr>
       (ObjSparse \<lparr>subtype = dt_float64, fill_value = NaN\<rparr>) = Inr True
   \<and> SparseDtype_eq example_env \<lparr>subtype = dt_float64, fill_value = NaN\<rparr>
       (ObjSparse \<lparr>subtype = dt_datetime64, fill_value = NaT\<rparr>) = Inr False
   \<and> SparseDtype_eq example_env \<lparr>subtype = dt_float64, fill_value = NaN\<rparr>
       (ObjSparse \<lparr>subtype = dt_float64, fill_value = NaT\<rparr>) = Inr False"
  by (simp add: SparseDtype_eq_def eq_instances_def is_na_fill_value_def example_simps)

text \<open>
  C2: equal instances are to hash equal, the hash being that of the tuple (subtype,
  fill_value, is_na_fill_value). The two instances of C1 that the code takes for equal
  are hashed through different tuples, \<open>(float64, nan, True)\<close> and
  \<open>(float64, 0.0, False)\<close>: their hashes are equal only where the structural hash \<open>H\<close>
  collides on the two.
\<close>

theorem C2_equal_but_hashed_apart:
  "SparseDtype_eq example_env \<lparr>subtype = dt_float64, fill_value = NaN\<rparr>
       (ObjSparse \<lparr>subtype = dt_float64, fill_value = PyFloat 0\<rparr>) = Inr True
   \<and> SparseDtype_hash H example_env \<lparr>subtype = dt_float64, fill_value = NaN\<rparr>
       = H (dt_float64, NaN, True)
   \<and> SparseDtype_hash H example_env \<lparr>subtype = dt_float64, fill_value = PyFloat 0\<rparr>
       = H (dt_float64, PyFloat 0, False)"
  by (simp add: SparseDtype_eq_def eq_instances_def is_na_fill_value_def
      SparseDtype_hash_def metadata_def example_simps)

subsection \<open>The string form\<close>



text \<open>
  C4: a string \<open>Sparse[<subtype>, <fill_value>]\<close> is to be accepted exactly when the text
  of the default fill value of the subtype equals the fill-value text. The code compares
  the whole string with the name of the instance it built, subtype name included, so
  \<open>Sparse[int, 0]\<close> is refused: the subtype \<open>int\<close> resolves to int64, whose default 0 has
  the text \<open>0\<close> of the string, but the name is \<open>Sparse[int64, 0]\<close>. The docstring of
  \<open>construct_from_string\<close> lists \<open>Sparse[int, 0]\<close> as accepted. \<open>Sparse[int64, 0]\<close> is
  accepted and \<open>Sparse[int64, 1]\<close> refused, as the claim says.
\<close>

theorem C4_alias_rejected:
  "construct_from_string example_env ''Sparse[int, 0]'' = Inl UnsupportedFillValue
   \<and> parse_subtype ''Sparse[int, 0]'' = Inr (''int'', Some ''0'')
   \<and> SparseDtype_init example_env (ArgStr ''int'') None
       = Inr \<lparr>subtype = dt_int64, fill_value = PyInt 0\<rparr>
   \<and> py_format example_env (PyInt 0) = ''0''
   \<and> name example_env \<lparr>subtype = dt_int64, fill_value = PyInt 0\<rparr> = ''Sparse[int64, 0]''
   \<and> construct_from_string example_env ''Sparse[int64, 0]''
       = Inr \<lparr>subtype = dt_int64, fill_value = PyInt 0\<rparr>
   \<and> construct_from_string example_env ''Sparse[int64, 1]'' = Inl UnsupportedFillValue"
  by (simp add: construct_from_string_def parse_subtype_def xpr_match_def after_subtype_def
      SparseDtype_init_def name_def example_simps)

text \<open>
  The shorthand \<open>Sparse\<close> stands for \<open>Sparse[float64]\<close>: it is parsed as the subtype
  name \<open>float64\<close> with no fill value, and in the example environment gives float64
  with the fill value NaN.
\<close>

lemma from_string_Sparse:
  "construct_from_string E ''Sparse'' = SparseDtype_init E (ArgStr ''float64'') None
   \<and> construct_from_string example_env ''Sparse''
       = Inr \<lparr>subtype = dt_float64, fill_value = NaN\<rparr>"
  by (simp add: construct_from_string_def parse_subtype_def xpr_match_def
      SparseDtype_init_def example_simps split: sum.split)



subsection \<open>\<open>update_dtype\<close>\<close>

text \<open>
  C8, as the claim states it, fails on two counts. The fill value cannot always be
  converted: \<open>SparseDtype(float64, nan).update_dtype(int64)\<close> raises the ValueError of the
  cast, as the docstring of \<open>update_dtype\<close> says. And the subtype of the result is not
  always the target: the constructor turns a string type into the object type, so
  \<open>SparseDtype(int64, 1).update_dtype(str)\<close> is \<open>SparseDtype(object, '1')\<close>.
\<close>

theorem C8_update_dtype_counterexample:
  "update_dtype example_env \<lparr>subtype = dt_float64, fill_value = NaN\<rparr> (ArgDtype dt_int64)
     = Inl IncompatibleFillValue
   \<and> update_dtype example_env \<lparr>subtype = dt_int64, fill_value = PyInt 1\<rparr> (ArgDtype dt_str)
     = Inr \<lparr>subtype = dt_object, fill_value = PyStr ''1''\<rparr>"
  by (simp add: update_dtype_def SparseDtype_init_def example_simps)

text \<open>
  C8, amended: for every SparseDtype \<open>d\<close> and every target \<open>t\<close> that is no SparseDtype,
  when the cast of the fill value of \<open>d\<close> to \<open>t\<close> gives a scalar \<open>v\<close>,
  \<open>d.update_dtype(t)\<close> is a new SparseDtype whose fill value is \<open>v\<close> and whose subtype is
  \<open>t\<close>, or the object type when \<open>t\<close> is a string type; when the cast raises,
  \<open>update_dtype\<close> raises the same. A SparseDtype argument is returned as it is.
\<close>

theorem C8_update_dtype:
  assumes "astype_nansafe E (fill_value d) t = Inr (Some v)" and "is_scalar E v"
  shows "update_dtype E d (ArgDtype t)
           = Inr \<lparr>subtype = (if is_string_dtype E t then object_dtype E else t), fill_value = v\<rparr>
         \<and> update_dtype E d (ArgSparse d') = Inr d'
         \<and> (astype_nansafe E (fill_value d2) t2 = Inl e
              \<longrightarrow> update_dtype E d2 (ArgDtype t2) = Inl e)"
  using assms by (simp add: update_dtype_def SparseDtype_init_def Let_def)

text \<open>
  C8 at the example of the claim, \<open>SparseDtype(int64, 0).update_dtype(float64)\<close>, which is
  \<open>SparseDtype(float64, 0.0)\<close>, and at the cast of NaN to int64, which raises.
\<close>

theorem C8_update_dtype_witness:
  "astype_nansafe example_env (PyInt 0) dt_float64 = Inr (Some (PyFloat 0))
   \<and> is_scalar example_env (PyFloat 0)
   \<and> update_dtype example_env \<lparr>subtype = dt_int64, fill_value = PyInt 0\<rparr> (ArgDtype dt_float64)
       = Inr \<lparr>subtype = dt_float64, fill_value = PyFloat 0\<rparr>
   \<and> update_dtype example_env \<lparr>subtype = dt_int64, fill_value = PyInt 0\<rparr>
         (ArgSparse \<lparr>subtype = dt_float64, fill_value = NaN\<rparr>)
       = Inr \<lparr>subtype = dt_float64, fill_value = NaN\<rparr>
   \<and> astype_nansafe example_env NaN dt_int64 = Inl IncompatibleFillValue
   \<and> update_dtype example_env \<lparr>subtype = dt_float64, fill_value = NaN\<rparr> (ArgDtype dt_int64)
       = Inl IncompatibleFillValue"
proof -
  have a: "astype_nansafe example_env (fill_value \<lparr>subtype = dt_int64, fill_value = PyInt 0\<rparr>)
             dt_float64 = Inr (Some (PyFloat 0))"
    by (simp add: example_simps)
  have s: "is_scalar example_env (PyFloat 0)"
    by (simp add: example_simps)
  have e: "astype_nansafe example_env NaN dt_int64 = Inl IncompatibleFillValue"
    by (simp add: example_simps)
  show ?thesis
    using C8_update_dtype [OF a s, of "\<lparr>subtype = dt_float64, fill_value = NaN\<rparr>"
        "\<lparr>subtype = dt_float64, fill_value = NaN\<rparr>" dt_int64 IncompatibleFillValue] a s e
    by (simp add: example_simps)
qed

end
